theory Spec2Isabelle
  imports Main "HOL-Library.Word"
begin

section \<open>Go values, variants and option bags\<close>

text \<open>
  The portal is one Go file. Its handlers receive and return dynamically typed values
  (\<open>interface{}\<close>, \<open>dbus.Variant\<close>). A Go \<open>error\<close> is modelled by its message.
  A value of type \<open>interface{}\<close> is either the nil interface (\<open>GoNil\<close>) or a value
  with a dynamic type; a pointer \<open>*dbus.Variant\<close> stored in an interface keeps its
  dynamic type even when the pointer itself is nil (\<open>GoVariantPtr None\<close>), so
  it is a different value from \<open>GoNil\<close>. The program looks into values of the types
  \<open>uint32\<close>, \<open>string\<close>, \<open>[]string\<close> and \<open>*dbus.Variant\<close> only; a value of any
  other type (a caller may put one into the options) is \<open>GoOther\<close> with the name of
  its type.
\<close>

type_synonym error = string

datatype gvalue =
    GoNil
  | GoUint32 "32 word"
  | GoString string
  | GoStrings "string list"
  | GoVariantPtr "variant option"
  | GoOther string
and variant = Variant (Value: gvalue)

text \<open>\<open>type kv map[string]dbus.Variant\<close>\<close>

type_synonym kv = "string \<rightharpoonup> variant"

text \<open>
  \<open>dbus.MakeVariant(v)\<close> stores \<open>v\<close> in a fresh Variant (its signature is a function
  of the dynamic type of \<open>v\<close> and is not kept here).
\<close>

definition MakeVariant :: "gvalue \<Rightarrow> variant" where
  "MakeVariant v = Variant v"

text \<open>
  \<open>options["handle_token"]\<close>: indexing a Go map with an absent key gives the zero
  value of the element type, here the zero Variant, whose \<open>Value()\<close> is nil.
\<close>

definition index_kv :: "kv \<Rightarrow> string \<Rightarrow> variant" where
  "index_kv m k = (case m k of Some v \<Rightarrow> v | None \<Rightarrow> Variant GoNil)"

text \<open>\<open>dbus.Error\<close> and the library's constant \<open>dbus.ErrMsgNoObject\<close>.\<close>

datatype dbus_error = Error (Name: string) (Body: "string list")

definition ErrMsgNoObject :: dbus_error where
  "ErrMsgNoObject = Error ''org.freedesktop.DBus.Error.NoSuchObject'' [''No such object'']"

section \<open>Observable effects and the outside world\<close>

text \<open>The operands of a \<open>log.Println\<close> call.\<close>

datatype operand = Str string | Opts kv | OptsPtr "kv option"

text \<open>The replies of \<open>conn.RequestName\<close>.\<close>

datatype RequestNameReply =
    RequestNameReplyPrimaryOwner
  | RequestNameReplyInQueue
  | RequestNameReplyExists
  | RequestNameReplyAlreadyOwner

text \<open>
  \<open>cmd.Run()\<close> and \<open>exec.Command(...).Output()\<close> start a helper program and wait
  until it exits. The call returns its answer then; a helper that never exits (a dialog
  left open, a launcher that hangs) keeps the call waiting for ever.
\<close>

datatype 'a answer = Answer 'a | NeverExits

text \<open>
  The answers of the operating system and of the bus, which the program does not
  control: \<open>exec.LookPath\<close>, \<open>cmd.Run\<close> (by path and arguments),
  \<open>exec.Command(name, args...).Output()\<close> (standard output and error; a helper
  that cannot be started is an error here too), \<open>conn.Emit\<close>,
  \<open>dbus.ConnectSessionBus\<close>, \<open>prop.Export\<close> and \<open>conn.RequestName\<close>.
\<close>

record world =
  LookPath :: "string \<Rightarrow> error + string"
  Run :: "string \<Rightarrow> string list \<Rightarrow> error option answer"
  Output :: "string \<Rightarrow> string list \<Rightarrow> (string \<times> error option) answer"
  EmitResult :: "string \<Rightarrow> string \<Rightarrow> 32 word \<Rightarrow> kv \<Rightarrow> error option"
  ConnectSessionBus :: "error option"
  PropExport :: "error option"
  RequestName :: "string \<Rightarrow> RequestNameReply \<times> error option"

section \<open>The exception runtime\<close>

text \<open>
  \<open>type Exception struct { what func() error }\<close>. A Go panic carries either a
  \<open>*Exception\<close> or any other value (a runtime error).
\<close>

datatype exception = Exception (what: error)

datatype panic = PanicException exception | PanicRuntime string

text \<open>
  A piece of the program either returns, panics, ends the process with
  \<open>os.Exit\<close>, or blocks for ever (\<open>select {}\<close>); it leaves its events.
\<close>

datatype 'a result = Return 'a | Panic panic | Exit int | Block

text \<open>
  What a run does is a list of events, in order: a line given to \<open>log.Println\<close>,
  a call of \<open>conn.Emit\<close> (object path, signal name, error code, results) with the
  error it returned (\<open>None\<close>: the signal went out), a write to standard error, the
  deferred \<open>conn.Close()\<close>, and a \<open>go\<close> statement with the run of the goroutine
  it starts (that goroutine's own events and how it ends).
\<close>

datatype event =
    Log "operand list"
  | Emit string string "32 word" kv "error option"
  | Stderr string
  | Close
  | Go "event list \<times> unit result"

type_synonym 'a proc = "event list \<times> 'a result"

definition ret :: "'a \<Rightarrow> 'a proc" where
  "ret a = ([], Return a)"

definition emit_event :: "event \<Rightarrow> unit proc" where
  "emit_event e = ([e], Return ())"

text \<open>Sequencing of two statements: the second runs only if the first returns.\<close>

definition seq :: "'a proc \<Rightarrow> ('a \<Rightarrow> 'b proc) \<Rightarrow> 'b proc" where
  "seq m f =
     (case m of
        (evs, Return a) \<Rightarrow> (case f a of (evs', r) \<Rightarrow> (evs @ evs', r))
      | (evs, Panic p) \<Rightarrow> (evs, Panic p)
      | (evs, Exit c) \<Rightarrow> (evs, Exit c)
      | (evs, Block) \<Rightarrow> (evs, Block))"

definition newException :: "error \<Rightarrow> exception" where
  "newException e = Exception e"

definition throw :: "exception \<Rightarrow> 'a proc" where
  "throw self = ([], Panic (PanicException self))"

text \<open>
  \<open>try(cb)\<close>: runs \<open>cb\<close>; a panic that carries a \<open>*Exception\<close> is recovered and
  returned, any other panic is raised again, no panic gives nil.
\<close>

definition try_exc :: "unit proc \<Rightarrow> exception option proc" where
  "try_exc cb =
     (case cb of
        (evs, Return u) \<Rightarrow> (evs, Return None)
      | (evs, Panic (PanicException exc)) \<Rightarrow> (evs, Return (Some exc))
      | (evs, Panic (PanicRuntime rec)) \<Rightarrow> (evs, Panic (PanicRuntime rec))
      | (evs, Exit c) \<Rightarrow> (evs, Exit c)
      | (evs, Block) \<Rightarrow> (evs, Block))"

definition catch :: "exception option \<Rightarrow> (exception \<Rightarrow> unit proc) \<Rightarrow> unit proc" where
  "catch self cb = (case self of Some exc \<Rightarrow> cb exc | None \<Rightarrow> ret ())"

definition fatal :: "exception \<Rightarrow> int \<Rightarrow> string \<Rightarrow> unit proc" where
  "fatal self code prefix = ([Stderr (prefix @ '': '' @ what self @ ''\<newline>'')], Exit code)"

definition println :: "operand list \<Rightarrow> unit proc" where
  "println ops = emit_event (Log ops)"

section \<open>Helper programs\<close>

definition lookPath :: "world \<Rightarrow> string \<Rightarrow> string proc" where
  "lookPath w prog =
     (case LookPath w prog of
        Inl err \<Rightarrow> throw (newException (''can not find '' @ prog @ '': '' @ err))
      | Inr path \<Rightarrow> ret path)"

definition xdgOpen :: "world \<Rightarrow> string \<Rightarrow> unit proc" where
  "xdgOpen w url =
     (let args = [''xdg-open-dispatch'', url] in
      seq (lookPath w (hd args)) (\<lambda>path.
        case Run w path args of
          NeverExits \<Rightarrow> ([], Block)
        | Answer (Some err) \<Rightarrow> throw (newException (''xdg-open-dispatch: '' @ err))
        | Answer None \<Rightarrow> ret ()))"

section \<open>Requests\<close>

text \<open>\<open>strings.CutPrefix\<close>, and \<open>strings.ReplaceAll\<close> for a one-byte pattern and
  replacement, which is how \<open>newRequest\<close> calls it.\<close>

definition CutPrefix :: "string \<Rightarrow> string \<Rightarrow> string \<times> bool" where
  "CutPrefix s prefix =
     (if take (length prefix) s = prefix then (drop (length prefix) s, True) else (s, False))"

definition ReplaceAll :: "string \<Rightarrow> char \<Rightarrow> char \<Rightarrow> string" where
  "ReplaceAll s old new = map (\<lambda>c. if c = old then new else c) s"

record request =
  path :: string

text \<open>The value of \<open>sender\<close> after the first two statements of \<open>newRequest\<close>.\<close>

definition sanitized :: "string \<Rightarrow> string" where
  "sanitized sender = ReplaceAll (fst (CutPrefix sender '':'')) (CHR ''.'') (CHR ''_'')"

definition newRequest :: "string \<Rightarrow> string \<Rightarrow> request" where
  "newRequest sender token =
     \<lparr>path = ''/org/freedesktop/portal/desktop/request/'' @ sanitized sender @ ''/'' @ token\<rparr>"

definition response :: "world \<Rightarrow> request \<Rightarrow> 32 word \<Rightarrow> kv \<Rightarrow> unit proc" where
  "response w r errcode results =
     (let err = EmitResult w (path r) ''org.freedesktop.portal.Request.Response'' errcode results in
      seq (emit_event (Emit (path r) ''org.freedesktop.portal.Request.Response'' errcode results err))
        (\<lambda>_. case err of
           Some e \<Rightarrow> throw (newException (''can not send response: '' @ e))
         | None \<Rightarrow> ret ()))"

section \<open>Handlers\<close>

text \<open>\<open>go func() { ... }()\<close>: the goroutine is detached; the statement itself returns at once.\<close>

definition go :: "unit proc \<Rightarrow> unit proc" where
  "go task = emit_event (Go task)"

subsection \<open>OpenURI\<close>

definition OpenURI_task :: "world \<Rightarrow> string \<Rightarrow> unit proc" where
  "OpenURI_task w uri =
     seq (try_exc (xdgOpen w uri))
       (\<lambda>e. catch e (\<lambda>exc. println [Str ''in OpenURI'', Str (what exc)]))"

definition OpenURI :: "world \<Rightarrow> string \<Rightarrow> string \<Rightarrow> kv option \<Rightarrow> dbus_error option proc" where
  "OpenURI w parent uri options =
     seq (println [Str ''enter OpenURI'', Str parent, Str uri, OptsPtr options]) (\<lambda>_.
     seq (go (OpenURI_task w uri)) (\<lambda>_.
     ret None))"

subsection \<open>FileChooser\<close>

text \<open>
  \<open>strings.TrimSpace\<close> removes the leading and the trailing white space of a
  string, as \<open>unicode.IsSpace\<close> defines it. A Go string is a sequence of bytes,
  read as UTF-8: \<open>spaceRunes\<close> lists the encodings of the white-space code points
  (tab to carriage return, space, U+0085, U+00A0, U+1680, U+2000 to U+200A, U+2028,
  U+2029, U+202F, U+205F, U+3000).
\<close>

definition spaceRunes :: "string list" where
  "spaceRunes =
     [[CHR 0x09], [CHR 0x0A], [CHR 0x0B], [CHR 0x0C], [CHR 0x0D], [CHR 0x20],
      [CHR 0xC2, CHR 0x85], [CHR 0xC2, CHR 0xA0],
      [CHR 0xE1, CHR 0x9A, CHR 0x80],
      [CHR 0xE2, CHR 0x80, CHR 0x80], [CHR 0xE2, CHR 0x80, CHR 0x81],
      [CHR 0xE2, CHR 0x80, CHR 0x82], [CHR 0xE2, CHR 0x80, CHR 0x83],
      [CHR 0xE2, CHR 0x80, CHR 0x84], [CHR 0xE2, CHR 0x80, CHR 0x85],
      [CHR 0xE2, CHR 0x80, CHR 0x86], [CHR 0xE2, CHR 0x80, CHR 0x87],
      [CHR 0xE2, CHR 0x80, CHR 0x88], [CHR 0xE2, CHR 0x80, CHR 0x89],
      [CHR 0xE2, CHR 0x80, CHR 0x8A],
      [CHR 0xE2, CHR 0x80, CHR 0xA8], [CHR 0xE2, CHR 0x80, CHR 0xA9],
      [CHR 0xE2, CHR 0x80, CHR 0xAF],
      [CHR 0xE2, CHR 0x81, CHR 0x9F],
      [CHR 0xE3, CHR 0x80, CHR 0x80]]"

definition isSpace :: "string \<Rightarrow> bool" where
  "isSpace r = (r \<in> set spaceRunes)"

fun TrimLeft :: "string \<Rightarrow> string" where
  "TrimLeft (a # b # c # s) =
     (if isSpace [a] then TrimLeft (b # c # s)
      else if isSpace [a, b] then TrimLeft (c # s)
      else if isSpace [a, b, c] then TrimLeft s
      else a # b # c # s)"
| "TrimLeft [a, b] =
     (if isSpace [a] then TrimLeft [b] else if isSpace [a, b] then [] else [a, b])"
| "TrimLeft [a] = (if isSpace [a] then [] else [a])"
| "TrimLeft [] = []"

text \<open>\<open>TrimRightRev\<close> works on the reversed string: it sees the last byte first.\<close>

fun TrimRightRev :: "string \<Rightarrow> string" where
  "TrimRightRev (c # b # a # s) =
     (if isSpace [c] then TrimRightRev (b # a # s)
      else if isSpace [b, c] then TrimRightRev (a # s)
      else if isSpace [a, b, c] then TrimRightRev s
      else c # b # a # s)"
| "TrimRightRev [c, b] =
     (if isSpace [c] then TrimRightRev [b] else if isSpace [b, c] then [] else [c, b])"
| "TrimRightRev [c] = (if isSpace [c] then [] else [c])"
| "TrimRightRev [] = []"

definition TrimSpace :: "string \<Rightarrow> string" where
  "TrimSpace s = rev (TrimRightRev (rev (TrimLeft s)))"

text \<open>
  The type assertion \<open>tok.Value().(string)\<close>, in its one-result form: it panics with
  a runtime error (not a \<open>*Exception\<close>) unless the dynamic type is \<open>string\<close>.
\<close>

definition typeName :: "gvalue \<Rightarrow> string" where
  "typeName v =
     (case v of
        GoNil \<Rightarrow> ''nil''
      | GoUint32 n \<Rightarrow> ''uint32''
      | GoString s \<Rightarrow> ''string''
      | GoStrings l \<Rightarrow> ''[]string''
      | GoVariantPtr p \<Rightarrow> ''*dbus.Variant''
      | GoOther t \<Rightarrow> t)"

definition assert_string :: "gvalue \<Rightarrow> string proc" where
  "assert_string v =
     (case v of
        GoString s \<Rightarrow> ret s
      | _ \<Rightarrow> ([], Panic (PanicRuntime
                 (''interface conversion: interface {} is '' @ typeName v @ '', not string''))))"

definition OpenFile_task :: "world \<Rightarrow> request \<Rightarrow> unit proc" where
  "OpenFile_task w req =
     seq (try_exc
            (case Output w ''zenity'' [''--file-selection''] of
               NeverExits \<Rightarrow> ([], Block)
             | Answer (pat, Some err) \<Rightarrow>
                 seq (println [Str err]) (\<lambda>_. response w req 1 Map.empty)
             | Answer (pat, None) \<Rightarrow>
                 response w req 0
                   [''uris'' \<mapsto> MakeVariant (GoStrings [''file://'' @ TrimSpace pat])]))
       (\<lambda>e. catch e (\<lambda>exc. println [Str ''in OpenFile'', Str (what exc)]))"

definition OpenFile ::
  "world \<Rightarrow> string \<Rightarrow> string \<Rightarrow> string \<Rightarrow> kv \<Rightarrow> (string \<times> dbus_error option) proc" where
  "OpenFile w sender parent title options =
     seq (println [Str ''enter OpenFile'', Str sender, Str parent, Str title, Opts options]) (\<lambda>_.
     let tok = index_kv options ''handle_token'' in
     seq (assert_string (Value tok)) (\<lambda>token.
     let req = newRequest sender token in
     seq (go (OpenFile_task w req)) (\<lambda>_.
     ret (path req, None))))"

subsection \<open>Settings\<close>

text \<open>
  \<open>box(v interface{})\<close> returns nil only for the nil interface. In \<open>Read\<close> the
  argument is \<open>res\<close>, of type \<open>*dbus.Variant\<close>: Go converts it to \<open>interface{}\<close> at
  the call, and the interface value then has the dynamic type \<open>*dbus.Variant\<close>
  (\<open>GoVariantPtr\<close>). Go's \<open>v == nil\<close> holds only for an interface with no dynamic
  type, so it is false for \<open>GoVariantPtr None\<close>, the nil pointer.
\<close>

definition box :: "gvalue \<Rightarrow> variant option" where
  "box v = (if v = GoNil then None else Some (MakeVariant v))"

definition ReadOne ::
  "string \<Rightarrow> string \<Rightarrow> string \<Rightarrow> (variant option \<times> dbus_error option) proc" where
  "ReadOne sender namespace key =
     seq (println [Str ''enter ReadOne'', Str sender, Str namespace, Str key]) (\<lambda>_.
     let path = namespace @ ''.'' @ key in
     if path = ''org.freedesktop.appearance.color-scheme''
     then ret (box (GoUint32 1), None)
     else ret (None, Some ErrMsgNoObject))"

definition Read ::
  "string \<Rightarrow> string \<Rightarrow> string \<Rightarrow> (variant option \<times> dbus_error option) proc" where
  "Read sender namespace key =
     seq (ReadOne sender namespace key) (\<lambda>(res, err).
     ret (box (GoVariantPtr res), err))"

section \<open>Bootstrap\<close>

definition bind :: "world \<Rightarrow> string \<Rightarrow> unit proc" where
  "bind w service =
     (case RequestName w service of
        (reply, Some err) \<Rightarrow>
          throw (newException (''can not request name '' @ service @ '': '' @ err))
      | (reply, None) \<Rightarrow>
          if reply \<noteq> RequestNameReplyPrimaryOwner
          then throw (newException (''name '' @ service @ '' already taken''))
          else ret ())"

definition sessionBus :: "world \<Rightarrow> unit proc" where
  "sessionBus w =
     (case ConnectSessionBus w of
        Some err \<Rightarrow> throw (newException (''can not connect session bus '' @ err))
      | None \<Rightarrow> ret ())"

text \<open>
  \<open>defer conn.Close()\<close>: the connection is closed when the function returns or
  panics, not when the process exits or blocks.
\<close>

definition defer_Close :: "'a proc \<Rightarrow> 'a proc" where
  "defer_Close body =
     (case body of
        (evs, Return a) \<Rightarrow> (evs @ [Close], Return a)
      | (evs, Panic p) \<Rightarrow> (evs @ [Close], Panic p)
      | (evs, Exit c) \<Rightarrow> (evs, Exit c)
      | (evs, Block) \<Rightarrow> (evs, Block))"

text \<open>
  \<open>run\<close>: the \<open>conn.Export\<close> calls leave no event (their errors are dropped);
  \<open>select {}\<close> blocks for ever.
\<close>

definition run :: "world \<Rightarrow> unit proc" where
  "run w =
     seq (sessionBus w) (\<lambda>conn.
     defer_Close
       (seq (case PropExport w of
               Some err \<Rightarrow> throw (newException (''can not bind properties: '' @ err))
             | None \<Rightarrow> ret ()) (\<lambda>_.
        seq (bind w ''org.freedesktop.portal.Desktop'') (\<lambda>_.
        ([], Block)))))"

definition main :: "world \<Rightarrow> unit proc" where
  "main w = seq (try_exc (run w)) (\<lambda>e. catch e (\<lambda>exc. fatal exc 1 ''abort''))"

section \<open>Reading a trace\<close>

text \<open>The calls of \<open>conn.Emit\<close> in a trace, and those that sent their signal.\<close>

fun is_Emit :: "event \<Rightarrow> bool" where
  "is_Emit (Emit p n c r e) = True"
| "is_Emit (Log ops) = False"
| "is_Emit (Stderr s) = False"
| "is_Emit Close = False"
| "is_Emit (Go t) = False"

fun is_sent :: "event \<Rightarrow> bool" where
  "is_sent (Emit p n c r e) = (e = None)"
| "is_sent (Log ops) = False"
| "is_sent (Stderr s) = False"
| "is_sent Close = False"
| "is_sent (Go t) = False"

definition emits :: "event list \<Rightarrow> event list" where
  "emits evs = filter is_Emit evs"

definition signals :: "event list \<Rightarrow> event list" where
  "signals evs = filter is_sent evs"

section \<open>Sample worlds\<close>

text \<open>
  Concrete answers of the outside, for evaluating runs: one where every helper and the
  bus work (the file picker prints \<open>/home/user/file.txt\<close>), one where the bus
  connection is closed when the response is sent, one where no helper program is
  installed, one where the helpers exit with a non-zero status, and one where the
  helpers never exit.
\<close>

definition world_ok :: world where
  "world_ok =
     \<lparr>LookPath = (\<lambda>prog. Inr (''/usr/bin/'' @ prog)),
      Run = (\<lambda>p args. Answer None),
      Output = (\<lambda>name args. Answer (''/home/user/file.txt\<newline>'', None)),
      EmitResult = (\<lambda>p n c r. None),
      ConnectSessionBus = None,
      PropExport = None,
      RequestName = (\<lambda>service. (RequestNameReplyPrimaryOwner, None))\<rparr>"

definition world_bus_closed :: world where
  "world_bus_closed = world_ok\<lparr>EmitResult := (\<lambda>p n c r. Some ''dbus: connection closed by user'')\<rparr>"

definition world_no_helpers :: world where
  "world_no_helpers =
     world_ok\<lparr>LookPath := (\<lambda>prog. Inl ''executable file not found in $PATH''),
              Output := (\<lambda>name args. Answer ([], Some ''exec: zenity: executable file not found in $PATH''))\<rparr>"

definition world_helpers_fail :: world where
  "world_helpers_fail =
     world_ok\<lparr>Run := (\<lambda>p args. Answer (Some ''exit status 4'')),
              Output := (\<lambda>name args. Answer ([], Some ''exit status 1''))\<rparr>"

definition world_helpers_hang :: world where
  "world_helpers_hang =
     world_ok\<lparr>Run := (\<lambda>p args. NeverExits), Output := (\<lambda>name args. NeverExits)\<rparr>"

section \<open>The runs, flattened\<close>

lemmas runtime_defs = ret_def emit_event_def seq_def throw_def newException_def try_exc_def
  catch_def println_def go_def

lemma OpenURI_task_eq:
  "OpenURI_task w uri =
     (case LookPath w ''xdg-open-dispatch'' of
        Inl err \<Rightarrow>
          ([Log [Str ''in OpenURI'', Str (''can not find xdg-open-dispatch: '' @ err)]], Return ())
      | Inr p \<Rightarrow>
          (case Run w p [''xdg-open-dispatch'', uri] of
             NeverExits \<Rightarrow> ([], Block)
           | Answer (Some err) \<Rightarrow>
               ([Log [Str ''in OpenURI'', Str (''xdg-open-dispatch: '' @ err)]], Return ())
           | Answer None \<Rightarrow> ([], Return ())))"
  by (simp add: OpenURI_task_def xdgOpen_def lookPath_def runtime_defs
      split: sum.split option.split answer.split)

lemma response_eq:
  "response w r c res =
     (case EmitResult w (path r) ''org.freedesktop.portal.Request.Response'' c res of
        None \<Rightarrow> ([Emit (path r) ''org.freedesktop.portal.Request.Response'' c res None], Return ())
      | Some e \<Rightarrow> ([Emit (path r) ''org.freedesktop.portal.Request.Response'' c res (Some e)],
                   Panic (PanicException (Exception (''can not send response: '' @ e)))))"
  by (simp add: response_def runtime_defs Let_def split: option.split)

lemma OpenFile_task_failure:
  "Output w ''zenity'' [''--file-selection''] = Answer (pat, Some err) \<Longrightarrow>
   OpenFile_task w req =
     ([Log [Str err],
       Emit (path req) ''org.freedesktop.portal.Request.Response'' 1 Map.empty
         (EmitResult w (path req) ''org.freedesktop.portal.Request.Response'' 1 Map.empty)] @
      (case EmitResult w (path req) ''org.freedesktop.portal.Request.Response'' 1 Map.empty of
         None \<Rightarrow> []
       | Some e \<Rightarrow> [Log [Str ''in OpenFile'', Str (''can not send response: '' @ e)]]),
      Return ())"
  by (simp add: OpenFile_task_def response_eq runtime_defs split: option.split)

lemma OpenFile_task_success:
  "Output w ''zenity'' [''--file-selection''] = Answer (pat, None) \<Longrightarrow>
   results = [''uris'' \<mapsto> MakeVariant (GoStrings [''file://'' @ TrimSpace pat])] \<Longrightarrow>
   OpenFile_task w req =
     ([Emit (path req) ''org.freedesktop.portal.Request.Response'' 0 results
         (EmitResult w (path req) ''org.freedesktop.portal.Request.Response'' 0 results)] @
      (case EmitResult w (path req) ''org.freedesktop.portal.Request.Response'' 0 results of
         None \<Rightarrow> []
       | Some e \<Rightarrow> [Log [Str ''in OpenFile'', Str (''can not send response: '' @ e)]]),
      Return ())"
  by (simp add: OpenFile_task_def response_eq runtime_defs split: option.split)

lemma OpenFile_task_hang:
  "Output w ''zenity'' [''--file-selection''] = NeverExits \<Longrightarrow> OpenFile_task w req = ([], Block)"
  by (simp add: OpenFile_task_def runtime_defs)

lemma OpenFile_task_result:
  "snd (OpenFile_task w req) =
     (case Output w ''zenity'' [''--file-selection''] of NeverExits \<Rightarrow> Block | Answer r \<Rightarrow> Return ())"
proof (cases "Output w ''zenity'' [''--file-selection'']")
  case NeverExits
  then show ?thesis by (simp add: OpenFile_task_hang)
next
  case (Answer r)
  obtain pat err where r: "r = (pat, err)" by (cases r)
  with Answer show ?thesis
    by (cases err) (simp_all add: OpenFile_task_failure OpenFile_task_success)
qed

lemma OpenURI_task_result:
  "snd (OpenURI_task w uri) =
     (case LookPath w ''xdg-open-dispatch'' of
        Inl e \<Rightarrow> Return ()
      | Inr q \<Rightarrow>
          (case Run w q [''xdg-open-dispatch'', uri] of NeverExits \<Rightarrow> Block | Answer r \<Rightarrow> Return ()))"
  by (simp add: OpenURI_task_eq split: sum.split option.split answer.split)

lemma OpenFile_eq:
  "options ''handle_token'' = Some (Variant (GoString token)) \<Longrightarrow>
   OpenFile w sender parent title options =
     ([Log [Str ''enter OpenFile'', Str sender, Str parent, Str title, Opts options],
       Go (OpenFile_task w (newRequest sender token))],
      Return (path (newRequest sender token), None))"
  by (simp add: OpenFile_def index_kv_def assert_string_def runtime_defs Let_def)

lemma OpenFile_panic:
  "index_kv options ''handle_token'' = Variant v \<Longrightarrow> \<forall>s. v \<noteq> GoString s \<Longrightarrow>
   OpenFile w sender parent title options =
     ([Log [Str ''enter OpenFile'', Str sender, Str parent, Str title, Opts options]],
      Panic (PanicRuntime (''interface conversion: interface {} is '' @ typeName v @ '', not string'')))"
  by (cases v) (simp_all add: OpenFile_def assert_string_def runtime_defs Let_def)

lemma first_separator:
  "c \<notin> set a \<Longrightarrow> c \<notin> set b \<Longrightarrow> a @ c # t = b @ c # t' \<Longrightarrow> a = b \<and> t = t'"
proof (induction a arbitrary: b)
  case Nil
  then show ?case by (cases b) auto
next
  case (Cons x a)
  then show ?case by (cases b) auto
qed

lemma sanitized_no_slash: "CHR ''/'' \<notin> set S \<Longrightarrow> CHR ''/'' \<notin> set (sanitized S)"
  by (auto simp: sanitized_def CutPrefix_def ReplaceAll_def dest: in_set_dropD split: if_splits)

lemma key_split: "namespace @ ''.'' @ key = ''org.freedesktop.appearance.color-scheme'' \<longleftrightarrow>
   (namespace, key) \<in> {(''org'', ''freedesktop.appearance.color-scheme''),
      (''org.freedesktop'', ''appearance.color-scheme''),
      (''org.freedesktop.appearance'', ''color-scheme'')}"
  by (auto simp: append_eq_Cons_conv)

lemma main_eq:
  "main w =
    (case ConnectSessionBus w of
       Some e \<Rightarrow> ([Stderr (''abort: can not connect session bus '' @ e @ ''\<newline>'')], Exit 1)
     | None \<Rightarrow>
        (case PropExport w of
           Some e \<Rightarrow> ([Close, Stderr (''abort: can not bind properties: '' @ e @ ''\<newline>'')], Exit 1)
         | None \<Rightarrow>
            (case RequestName w ''org.freedesktop.portal.Desktop'' of
               (reply, Some e) \<Rightarrow>
                 ([Close, Stderr (''abort: can not request name org.freedesktop.portal.Desktop: '' @ e @ ''\<newline>'')], Exit 1)
             | (reply, None) \<Rightarrow>
                 if reply = RequestNameReplyPrimaryOwner then ([], Block)
                 else ([Close, Stderr (''abort: name org.freedesktop.portal.Desktop already taken'' @ ''\<newline>'')], Exit 1))))"
  by (simp add: main_def run_def sessionBus_def bind_def defer_Close_def fatal_def runtime_defs
      split: option.split prod.split)

section \<open>FileChooser.OpenFile: the response\<close>

text \<open>
  C1, as amended. For every run of \<open>OpenFile\<close> whose \<open>handle_token\<close> is a string, the
  handler returns the request's path and starts one task. When the helper exits, that
  task calls \<open>conn.Emit\<close> exactly once, for a \<open>Response\<close> on the request's path: error
  code 0 and \<open>results["uris"]\<close> the single URI \<open>file://\<close> followed by the trimmed
  output of the helper when the helper gave no error, error code 1 and empty results
  when it gave one; the signal is emitted exactly once when that send succeeds and not at
  all when it fails, and the task returns in both cases. When the helper never exits,
  the task waits for ever and nothing is emitted.
\<close>

theorem OpenFile_one_response:
  assumes "options ''handle_token'' = Some (Variant (GoString token))"
    and "req = newRequest sender token"
    and "code = (if err = None then 0 else 1)"
    and "results =
           (if err = None then [''uris'' \<mapsto> MakeVariant (GoStrings [''file://'' @ TrimSpace pat])]
            else Map.empty)"
    and "sent = EmitResult w (path req) ''org.freedesktop.portal.Request.Response'' code results"
  shows "OpenFile w sender parent title options =
           ([Log [Str ''enter OpenFile'', Str sender, Str parent, Str title, Opts options],
             Go (OpenFile_task w req)],
            Return (path req, None)) \<and>
         (Output w ''zenity'' [''--file-selection''] = Answer (pat, err) \<longrightarrow>
            emits (fst (OpenFile_task w req)) =
              [Emit (path req) ''org.freedesktop.portal.Request.Response'' code results sent] \<and>
            signals (fst (OpenFile_task w req)) =
              (if sent = None
               then [Emit (path req) ''org.freedesktop.portal.Request.Response'' code results None]
               else []) \<and>
            snd (OpenFile_task w req) = Return ()) \<and>
         (Output w ''zenity'' [''--file-selection''] = NeverExits \<longrightarrow>
            OpenFile_task w req = ([], Block) \<and>
            emits (fst (OpenFile_task w req)) = [])"
proof (intro conjI impI)
  show "OpenFile w sender parent title options =
           ([Log [Str ''enter OpenFile'', Str sender, Str parent, Str title, Opts options],
             Go (OpenFile_task w req)],
            Return (path req, None))"
    using assms(1,2) by (simp add: OpenFile_eq)
next
  assume "Output w ''zenity'' [''--file-selection''] = NeverExits"
  then show "OpenFile_task w req = ([], Block)"
    by (rule OpenFile_task_hang)
  then show "emits (fst (OpenFile_task w req)) = []"
    by (simp add: emits_def)
next
  assume out: "Output w ''zenity'' [''--file-selection''] = Answer (pat, err)"
  have "emits (fst (OpenFile_task w req)) =
              [Emit (path req) ''org.freedesktop.portal.Request.Response'' code results sent] \<and>
        signals (fst (OpenFile_task w req)) =
              (if sent = None
               then [Emit (path req) ''org.freedesktop.portal.Request.Response'' code results None]
               else []) \<and>
        snd (OpenFile_task w req) = Return ()"
  proof (cases err)
    case None
    with out have o: "Output w ''zenity'' [''--file-selection''] = Answer (pat, None)" by simp
    from None assms(3,4) have cr: "code = 0"
      "results = [''uris'' \<mapsto> MakeVariant (GoStrings [''file://'' @ TrimSpace pat])]" by simp_all
    show ?thesis
      using assms(5) cr OpenFile_task_success [OF o cr(2), of req]
      by (simp add: emits_def signals_def split: option.split)
  next
    case (Some e)
    with out have o: "Output w ''zenity'' [''--file-selection''] = Answer (pat, Some e)" by simp
    from Some assms(3,4) have cr: "code = 1" "results = Map.empty" by simp_all
    show ?thesis
      using assms(5) cr OpenFile_task_failure [OF o, of req]
      by (simp add: emits_def signals_def split: option.split)
  qed
  then show "emits (fst (OpenFile_task w req)) =
              [Emit (path req) ''org.freedesktop.portal.Request.Response'' code results sent]"
    and "signals (fst (OpenFile_task w req)) =
              (if sent = None
               then [Emit (path req) ''org.freedesktop.portal.Request.Response'' code results None]
               else [])"
    and "snd (OpenFile_task w req) = Return ()"
    by simp_all
qed

text \<open>
  C1, witness: the scenario of the specification (sender \<open>:1.7\<close>, token \<open>abc\<close>, the
  helper prints \<open>/home/user/file.txt\<close> and exits 0, the bus takes the signal), and the
  same call with a helper that never exits.
\<close>

theorem OpenFile_one_response_witness:
  "OpenFile world_ok '':1.7'' ''x11:1'' ''Open'' [''handle_token'' \<mapsto> Variant (GoString ''abc'')] =
     ([Log [Str ''enter OpenFile'', Str '':1.7'', Str ''x11:1'', Str ''Open'',
            Opts [''handle_token'' \<mapsto> Variant (GoString ''abc'')]],
       Go (OpenFile_task world_ok (newRequest '':1.7'' ''abc''))],
      Return (''/org/freedesktop/portal/desktop/request/1_7/abc'', None)) \<and>
   signals (fst (OpenFile_task world_ok (newRequest '':1.7'' ''abc''))) =
     [Emit ''/org/freedesktop/portal/desktop/request/1_7/abc''
        ''org.freedesktop.portal.Request.Response'' 0
        [''uris'' \<mapsto> MakeVariant (GoStrings [''file:///home/user/file.txt''])] None] \<and>
   OpenFile_task world_helpers_hang (newRequest '':1.7'' ''abc'') = ([], Block)"
proof -
  have tok: "[''handle_token'' \<mapsto> Variant (GoString ''abc'')] ''handle_token'' =
      Some (Variant (GoString ''abc''))" by simp
  have out: "Output world_ok ''zenity'' [''--file-selection''] =
      Answer (''/home/user/file.txt\<newline>'', None)" by (simp add: world_ok_def)
  have hang: "Output world_helpers_hang ''zenity'' [''--file-selection''] = NeverExits"
    by (simp add: world_helpers_hang_def world_ok_def)
  have trim: "TrimSpace (''/home/user/file.txt\<newline>'') = ''/home/user/file.txt''"
    by (simp add: TrimSpace_def isSpace_def spaceRunes_def)
  have p: "path (newRequest '':1.7'' ''abc'') = ''/org/freedesktop/portal/desktop/request/1_7/abc''"
    by (simp add: newRequest_def sanitized_def CutPrefix_def ReplaceAll_def)
  have sent: "EmitResult world_ok p n c r = None" for p n c r by (simp add: world_ok_def)
  show ?thesis
    using OpenFile_one_response
      [where options = "[''handle_token'' \<mapsto> Variant (GoString ''abc'')]" and token = "''abc''"
         and sender = "'':1.7''" and parent = "''x11:1''" and title = "''Open''" and w = world_ok
         and pat = "''/home/user/file.txt\<newline>''" and err = None,
       OF tok refl refl refl refl]
      OpenFile_one_response
      [where options = "[''handle_token'' \<mapsto> Variant (GoString ''abc'')]" and token = "''abc''"
         and sender = "'':1.7''" and parent = "''x11:1''" and title = "''Open''"
         and w = world_helpers_hang and pat = "[]" and err = None,
       OF tok refl refl refl refl]
    by (simp add: out hang trim p sent)
qed

text \<open>
  C1, counterexample to the claim as stated (exactly one \<open>Response\<close> signal in every
  run): when \<open>conn.Emit\<close> returns an error, the run emits no \<open>Response\<close> signal; the
  failure is logged.
\<close>

theorem OpenFile_send_failure_counterexample:
  "OpenFile world_bus_closed '':1.7'' ''x11:1'' ''Open'' [''handle_token'' \<mapsto> Variant (GoString ''abc'')] =
     ([Log [Str ''enter OpenFile'', Str '':1.7'', Str ''x11:1'', Str ''Open'',
            Opts [''handle_token'' \<mapsto> Variant (GoString ''abc'')]],
       Go ([Emit ''/org/freedesktop/portal/desktop/request/1_7/abc''
              ''org.freedesktop.portal.Request.Response'' 0
              [''uris'' \<mapsto> MakeVariant (GoStrings [''file:///home/user/file.txt''])]
              (Some ''dbus: connection closed by user''),
            Log [Str ''in OpenFile'',
                 Str ''can not send response: dbus: connection closed by user'']],
           Return ())],
      Return (''/org/freedesktop/portal/desktop/request/1_7/abc'', None)) \<and>
   signals (fst (OpenFile_task world_bus_closed (newRequest '':1.7'' ''abc''))) = []"
proof -
  have out: "Output world_bus_closed ''zenity'' [''--file-selection''] =
      Answer (''/home/user/file.txt\<newline>'', None)" by (simp add: world_bus_closed_def world_ok_def)
  have trim: "TrimSpace (''/home/user/file.txt\<newline>'') = ''/home/user/file.txt''"
    by (simp add: TrimSpace_def isSpace_def spaceRunes_def)
  have p: "path (newRequest '':1.7'' ''abc'') = ''/org/freedesktop/portal/desktop/request/1_7/abc''"
    by (simp add: newRequest_def sanitized_def CutPrefix_def ReplaceAll_def)
  have sent: "EmitResult world_bus_closed p n c r = Some ''dbus: connection closed by user''"
    for p n c r by (simp add: world_bus_closed_def world_ok_def)
  show ?thesis
    using OpenFile_task_success [OF out refl, of "newRequest '':1.7'' ''abc''"]
    by (simp add: OpenFile_eq trim p sent signals_def)
qed

section \<open>Request paths\<close>

text \<open>
  C2. For sender \<open>:1.7\<close> and \<open>options["handle_token"]\<close> the string \<open>abc\<close>,
  \<open>OpenFile\<close> returns the object path
  \<open>/org/freedesktop/portal/desktop/request/1_7/abc\<close> (whatever the helpers and the bus
  do later, in the goroutine it has started). For sender \<open>:1.42\<close> the path segment
  is \<open>1_42\<close>: the leading colon is cut and every dot becomes an underscore.
\<close>

theorem OpenFile_path_example:
  "OpenFile w '':1.7'' parent title [''handle_token'' \<mapsto> Variant (GoString ''abc'')] =
     ([Log [Str ''enter OpenFile'', Str '':1.7'', Str parent, Str title,
            Opts [''handle_token'' \<mapsto> Variant (GoString ''abc'')]],
       Go (OpenFile_task w \<lparr>path = ''/org/freedesktop/portal/desktop/request/1_7/abc''\<rparr>)],
      Return (''/org/freedesktop/portal/desktop/request/1_7/abc'', None)) \<and>
   sanitized '':1.42'' = ''1_42'' \<and>
   path (newRequest '':1.42'' token) = ''/org/freedesktop/portal/desktop/request/1_42/'' @ token \<and>
   sanitized (CHR '':'' # rest) = map (\<lambda>c. if c = CHR ''.'' then CHR ''_'' else c) rest"
  by (simp add: OpenFile_eq newRequest_def sanitized_def CutPrefix_def ReplaceAll_def)

text \<open>
  C3. The path of \<open>newRequest\<close> is a function of the sanitized sender and the token:
  equal inputs give equal paths. The sender is the unique name the bus gives the caller,
  and no such name contains \<open>/\<close>: for such senders, any two inputs that differ in the
  token or in the sanitized sender have different paths, whatever the tokens are. For
  arbitrary strings the same holds when only the token differs, or only the sanitized
  sender.
\<close>

theorem newRequest_path_injective:
  "(sanitized S = sanitized S' \<and> T = T' \<longrightarrow> path (newRequest S T) = path (newRequest S' T')) \<and>
   (sanitized S = sanitized S' \<and> T \<noteq> T' \<longrightarrow> path (newRequest S T) \<noteq> path (newRequest S' T')) \<and>
   (sanitized S \<noteq> sanitized S' \<and> T = T' \<longrightarrow> path (newRequest S T) \<noteq> path (newRequest S' T')) \<and>
   (CHR ''/'' \<notin> set S \<and> CHR ''/'' \<notin> set S' \<and> (sanitized S \<noteq> sanitized S' \<or> T \<noteq> T') \<longrightarrow>
      path (newRequest S T) \<noteq> path (newRequest S' T'))"
proof -
  have "sanitized S = sanitized S' \<and> T = T'"
    if "CHR ''/'' \<notin> set S" "CHR ''/'' \<notin> set S'" "path (newRequest S T) = path (newRequest S' T')"
  proof -
    from that(3) have "sanitized S @ CHR ''/'' # T = sanitized S' @ CHR ''/'' # T'"
      by (simp add: newRequest_def)
    with sanitized_no_slash [OF that(1)] sanitized_no_slash [OF that(2)] show ?thesis
      by (rule first_separator)
  qed
  then show ?thesis
    by (auto simp: newRequest_def)
qed

text \<open>
  C3, witness: \<open>:1.7\<close> and \<open>1_7\<close> sanitize to the same segment and share their
  paths; other tokens or other senders give other paths.
\<close>

theorem newRequest_path_injective_witness:
  "path (newRequest '':1.7'' ''abc'') = path (newRequest ''1_7'' ''abc'') \<and>
   path (newRequest '':1.7'' ''abc'') \<noteq> path (newRequest '':1.7'' ''abd'') \<and>
   path (newRequest '':1.7'' ''abc'') \<noteq> path (newRequest '':1.8'' ''abc'') \<and>
   path (newRequest '':1.7'' ''x/abc'') \<noteq> path (newRequest '':1.8'' ''abc'')"
proof -
  have s: "sanitized '':1.7'' = ''1_7''" "sanitized ''1_7'' = ''1_7''" "sanitized '':1.8'' = ''1_8''"
    by (simp_all add: sanitized_def CutPrefix_def ReplaceAll_def)
  show ?thesis
    using newRequest_path_injective [of "'':1.7''" "''1_7''" "''abc''" "''abc''"]
      newRequest_path_injective [of "'':1.7''" "'':1.7''" "''abc''" "''abd''"]
      newRequest_path_injective [of "'':1.7''" "'':1.8''" "''abc''" "''abc''"]
      newRequest_path_injective [of "'':1.7''" "'':1.8''" "''x/abc''" "''abc''"]
    by (simp add: s)
qed

section \<open>Settings\<close>

text \<open>
  C4, counterexample to the claim as stated (every pair other than
  \<open>("org.freedesktop.appearance", "color-scheme")\<close> gets the error): the lookup
  key is the concatenation, so the pair \<open>("org.freedesktop", "appearance.color-scheme")\<close>
  gets the value 1 too.
\<close>

theorem ReadOne_other_split_counterexample:
  "ReadOne '':1.7'' ''org.freedesktop'' ''appearance.color-scheme'' =
     ([Log [Str ''enter ReadOne'', Str '':1.7'', Str ''org.freedesktop'',
            Str ''appearance.color-scheme'']],
      Return (Some (Variant (GoUint32 1)), None))"
  by (simp add: ReadOne_def box_def MakeVariant_def runtime_defs)

text \<open>
  C4, as amended. \<open>ReadOne\<close> returns the boxed \<open>uint32\<close> 1 and no error exactly
  when \<open>namespace + "." + key\<close> is \<open>org.freedesktop.appearance.color-scheme\<close>, and
  nil with the error \<open>ErrMsgNoObject\<close> for every other pair. The pairs with that
  concatenation are the three ways of splitting it at a dot, the pair
  \<open>("org.freedesktop.appearance", "color-scheme")\<close> among them.
\<close>

theorem ReadOne_lookup:
  "ReadOne sender namespace key =
     ([Log [Str ''enter ReadOne'', Str sender, Str namespace, Str key]],
      Return
        (if namespace @ ''.'' @ key = ''org.freedesktop.appearance.color-scheme''
         then (Some (MakeVariant (GoUint32 1)), None)
         else (None, Some ErrMsgNoObject))) \<and>
   (namespace @ ''.'' @ key = ''org.freedesktop.appearance.color-scheme'') =
     ((namespace, key) \<in>
        {(''org'', ''freedesktop.appearance.color-scheme''),
         (''org.freedesktop'', ''appearance.color-scheme''),
         (''org.freedesktop.appearance'', ''color-scheme'')})"
  by (simp add: ReadOne_def box_def runtime_defs key_split del: append.simps insert_iff)

text \<open>
  C5. For every namespace and key, \<open>Read\<close> logs what \<open>ReadOne\<close> logs and returns
  the error of \<open>ReadOne\<close> together with a Variant that holds the \<open>*dbus.Variant\<close>
  returned by \<open>ReadOne\<close>: one more layer of boxing.
\<close>

theorem Read_boxes_ReadOne:
  "\<exists>res err. snd (ReadOne sender namespace key) = Return (res, err) \<and>
     Read sender namespace key =
       (fst (ReadOne sender namespace key), Return (Some (MakeVariant (GoVariantPtr res)), err))"
  by (simp add: Read_def ReadOne_def box_def runtime_defs)

text \<open>
  C10. On a miss \<open>ReadOne\<close> returns a nil pointer and \<open>ErrMsgNoObject\<close>. \<open>Read\<close>
  returns the same error, but not nil: \<open>box\<close> receives the nil pointer inside an
  interface value, which is not the nil interface, and wraps it.
\<close>

theorem Read_miss_not_nil:
  "ReadOne '':1.7'' ''org.freedesktop.appearance'' ''contrast'' =
     ([Log [Str ''enter ReadOne'', Str '':1.7'', Str ''org.freedesktop.appearance'', Str ''contrast'']],
      Return (None, Some ErrMsgNoObject)) \<and>
   Read '':1.7'' ''org.freedesktop.appearance'' ''contrast'' =
     ([Log [Str ''enter ReadOne'', Str '':1.7'', Str ''org.freedesktop.appearance'', Str ''contrast'']],
      Return (Some (Variant (GoVariantPtr None)), Some ErrMsgNoObject))"
  by (simp add: Read_def ReadOne_def box_def MakeVariant_def runtime_defs)


section \<open>OpenURI\<close>

text \<open>
  C6. Every call of \<open>OpenURI\<close> logs its arguments, starts one goroutine and returns
  a nil \<open>*dbus.Error\<close>, its only result (there is no object path in its type). The
  goroutine never calls \<open>conn.Emit\<close>; it returns, or waits for ever when the launcher
  never exits. When the launcher is not on the search path, or exits with an error, all
  the goroutine does is write one log line.
\<close>

theorem OpenURI_no_path_no_signal:
  "OpenURI w parent uri options =
     ([Log [Str ''enter OpenURI'', Str parent, Str uri, OptsPtr options],
       Go (OpenURI_task w uri)],
      Return None) \<and>
   emits (fst (OpenURI_task w uri)) = [] \<and>
   snd (OpenURI_task w uri) =
     (case LookPath w ''xdg-open-dispatch'' of
        Inl e \<Rightarrow> Return ()
      | Inr q \<Rightarrow>
          (case Run w q [''xdg-open-dispatch'', uri] of NeverExits \<Rightarrow> Block | Answer r \<Rightarrow> Return ())) \<and>
   (LookPath w ''xdg-open-dispatch'' = Inl err \<longrightarrow>
      fst (OpenURI_task w uri) =
        [Log [Str ''in OpenURI'', Str (''can not find xdg-open-dispatch: '' @ err)]]) \<and>
   (LookPath w ''xdg-open-dispatch'' = Inr p \<and> Run w p [''xdg-open-dispatch'', uri] = Answer (Some err) \<longrightarrow>
      fst (OpenURI_task w uri) =
        [Log [Str ''in OpenURI'', Str (''xdg-open-dispatch: '' @ err)]])"
  by (simp add: OpenURI_def runtime_defs OpenURI_task_eq emits_def
      split: sum.split option.split answer.split)

text \<open>
  C6, witness: the launcher is not installed; the launcher exits with status 4.
\<close>

theorem OpenURI_no_path_no_signal_witness:
  "OpenURI world_no_helpers ''x11:1'' ''https://example.org/'' None =
     ([Log [Str ''enter OpenURI'', Str ''x11:1'', Str ''https://example.org/'', OptsPtr None],
       Go (OpenURI_task world_no_helpers ''https://example.org/'')],
      Return None) \<and>
   OpenURI_task world_no_helpers ''https://example.org/'' =
     ([Log [Str ''in OpenURI'',
            Str ''can not find xdg-open-dispatch: executable file not found in $PATH'']],
      Return ()) \<and>
   OpenURI_task world_helpers_fail ''https://example.org/'' =
     ([Log [Str ''in OpenURI'', Str ''xdg-open-dispatch: exit status 4'']], Return ())"
proof -
  have l1: "LookPath world_no_helpers ''xdg-open-dispatch'' = Inl ''executable file not found in $PATH''"
    by (simp add: world_no_helpers_def world_ok_def)
  have l2: "LookPath world_helpers_fail ''xdg-open-dispatch'' = Inr ''/usr/bin/xdg-open-dispatch''"
    "Run world_helpers_fail ''/usr/bin/xdg-open-dispatch'' [''xdg-open-dispatch'', ''https://example.org/'']
       = Answer (Some ''exit status 4'')"
    by (simp_all add: world_helpers_fail_def world_ok_def)
  show ?thesis
    using OpenURI_no_path_no_signal [of world_no_helpers "''x11:1''" "''https://example.org/''" None
        "''executable file not found in $PATH''"]
      OpenURI_no_path_no_signal [of world_helpers_fail "''x11:1''" "''https://example.org/''" None
        "''exit status 4''" "''/usr/bin/xdg-open-dispatch''"]
    by (simp add: l1 l2 prod_eq_iff)
qed

section \<open>OpenFile without a usable handle token\<close>

text \<open>
  C7. When \<open>options\<close> has no \<open>handle_token\<close>, or its value is not a string,
  \<open>OpenFile\<close> does not return: after its log line the type assertion panics with a
  runtime error. No request is made and no goroutine is started.
\<close>

theorem OpenFile_bad_token_panics:
  assumes "options ''handle_token'' = None \<or>
           (\<exists>v. options ''handle_token'' = Some v \<and> (\<forall>s. Value v \<noteq> GoString s))"
  shows "OpenFile w sender parent title options =
           ([Log [Str ''enter OpenFile'', Str sender, Str parent, Str title, Opts options]],
            Panic (PanicRuntime
              (''interface conversion: interface {} is '' @
               typeName (Value (index_kv options ''handle_token'')) @ '', not string'')))"
proof -
  obtain v where v: "index_kv options ''handle_token'' = Variant v"
    by (cases "index_kv options ''handle_token''") simp
  with assms have "\<forall>s. v \<noteq> GoString s"
    by (auto simp: index_kv_def)
  from OpenFile_panic [OF v this] v show ?thesis
    by simp
qed

text \<open>
  C7, witness: an empty options map, and a \<open>handle_token\<close> that is a \<open>uint32\<close>.
\<close>

theorem OpenFile_bad_token_panics_witness:
  "OpenFile world_ok '':1.7'' ''x11:1'' ''Open'' Map.empty =
     ([Log [Str ''enter OpenFile'', Str '':1.7'', Str ''x11:1'', Str ''Open'', Opts Map.empty]],
      Panic (PanicRuntime ''interface conversion: interface {} is nil, not string'')) \<and>
   OpenFile world_ok '':1.7'' ''x11:1'' ''Open'' [''handle_token'' \<mapsto> Variant (GoUint32 7)] =
     ([Log [Str ''enter OpenFile'', Str '':1.7'', Str ''x11:1'', Str ''Open'',
            Opts [''handle_token'' \<mapsto> Variant (GoUint32 7)]]],
      Panic (PanicRuntime ''interface conversion: interface {} is uint32, not string''))"
  using OpenFile_bad_token_panics [of Map.empty world_ok "'':1.7''" "''x11:1''" "''Open''"]
    OpenFile_bad_token_panics [of "[''handle_token'' \<mapsto> Variant (GoUint32 7)]" world_ok
      "'':1.7''" "''x11:1''" "''Open''"]
  by (simp add: index_kv_def typeName_def)

section \<open>Failures inside the detached tasks\<close>

text \<open>
  C8. The goroutines of \<open>OpenURI\<close> and \<open>OpenFile\<close> never end with a panic or an
  exit of the process: they return, or wait for ever for a helper that never exits. A
  launcher that is not found or exits with an
  error leaves one log line. A file picker that fails leaves a log line and a
  \<open>Response\<close> with error code 1. A \<open>Response\<close> that cannot be sent leaves one log
  line after the one call of \<open>conn.Emit\<close>: it is not sent again and nothing else is
  sent.
\<close>

theorem task_failures_only_logged:
  "snd (OpenURI_task w uri) =
     (case LookPath w ''xdg-open-dispatch'' of
        Inl e \<Rightarrow> Return ()
      | Inr q \<Rightarrow>
          (case Run w q [''xdg-open-dispatch'', uri] of NeverExits \<Rightarrow> Block | Answer r \<Rightarrow> Return ())) \<and>
   snd (OpenFile_task w req) =
     (case Output w ''zenity'' [''--file-selection''] of NeverExits \<Rightarrow> Block | Answer r \<Rightarrow> Return ()) \<and>
   (LookPath w ''xdg-open-dispatch'' = Inl err \<longrightarrow>
      fst (OpenURI_task w uri) =
        [Log [Str ''in OpenURI'', Str (''can not find xdg-open-dispatch: '' @ err)]]) \<and>
   (LookPath w ''xdg-open-dispatch'' = Inr p \<and> Run w p [''xdg-open-dispatch'', uri] = Answer (Some err) \<longrightarrow>
      fst (OpenURI_task w uri) =
        [Log [Str ''in OpenURI'', Str (''xdg-open-dispatch: '' @ err)]]) \<and>
   (Output w ''zenity'' [''--file-selection''] = Answer (pat, Some err) \<and>
    EmitResult w (path req) ''org.freedesktop.portal.Request.Response'' 1 Map.empty = None \<longrightarrow>
      fst (OpenFile_task w req) =
        [Log [Str err],
         Emit (path req) ''org.freedesktop.portal.Request.Response'' 1 Map.empty None]) \<and>
   (Output w ''zenity'' [''--file-selection''] = Answer (pat, Some err) \<and>
    EmitResult w (path req) ''org.freedesktop.portal.Request.Response'' 1 Map.empty = Some e \<longrightarrow>
      fst (OpenFile_task w req) =
        [Log [Str err],
         Emit (path req) ''org.freedesktop.portal.Request.Response'' 1 Map.empty (Some e),
         Log [Str ''in OpenFile'', Str (''can not send response: '' @ e)]]) \<and>
   (Output w ''zenity'' [''--file-selection''] = Answer (pat, None) \<and>
    EmitResult w (path req) ''org.freedesktop.portal.Request.Response'' 0
      [''uris'' \<mapsto> MakeVariant (GoStrings [''file://'' @ TrimSpace pat])] = Some e \<longrightarrow>
      fst (OpenFile_task w req) =
        [Emit (path req) ''org.freedesktop.portal.Request.Response'' 0
           [''uris'' \<mapsto> MakeVariant (GoStrings [''file://'' @ TrimSpace pat])] (Some e),
         Log [Str ''in OpenFile'', Str (''can not send response: '' @ e)]])"
proof -
  note ur = OpenURI_task_result [of w uri]
  note fil = OpenFile_task_result [of w req]
  have l1: "LookPath w ''xdg-open-dispatch'' = Inl err \<longrightarrow>
      fst (OpenURI_task w uri) =
        [Log [Str ''in OpenURI'', Str (''can not find xdg-open-dispatch: '' @ err)]]"
    by (simp add: OpenURI_task_eq)
  have l2: "LookPath w ''xdg-open-dispatch'' = Inr p \<and> Run w p [''xdg-open-dispatch'', uri] = Answer (Some err) \<longrightarrow>
      fst (OpenURI_task w uri) =
        [Log [Str ''in OpenURI'', Str (''xdg-open-dispatch: '' @ err)]]"
    by (simp add: OpenURI_task_eq)
  have f1: "Output w ''zenity'' [''--file-selection''] = Answer (pat, Some err) \<and>
    EmitResult w (path req) ''org.freedesktop.portal.Request.Response'' 1 Map.empty = None \<longrightarrow>
      fst (OpenFile_task w req) =
        [Log [Str err],
         Emit (path req) ''org.freedesktop.portal.Request.Response'' 1 Map.empty None]"
    by (simp add: OpenFile_task_failure)
  have f2: "Output w ''zenity'' [''--file-selection''] = Answer (pat, Some err) \<and>
    EmitResult w (path req) ''org.freedesktop.portal.Request.Response'' 1 Map.empty = Some e \<longrightarrow>
      fst (OpenFile_task w req) =
        [Log [Str err],
         Emit (path req) ''org.freedesktop.portal.Request.Response'' 1 Map.empty (Some e),
         Log [Str ''in OpenFile'', Str (''can not send response: '' @ e)]]"
    by (simp add: OpenFile_task_failure)
  have f3: "Output w ''zenity'' [''--file-selection''] = Answer (pat, None) \<and>
    EmitResult w (path req) ''org.freedesktop.portal.Request.Response'' 0
      [''uris'' \<mapsto> MakeVariant (GoStrings [''file://'' @ TrimSpace pat])] = Some e \<longrightarrow>
      fst (OpenFile_task w req) =
        [Emit (path req) ''org.freedesktop.portal.Request.Response'' 0
           [''uris'' \<mapsto> MakeVariant (GoStrings [''file://'' @ TrimSpace pat])] (Some e),
         Log [Str ''in OpenFile'', Str (''can not send response: '' @ e)]]"
    by (simp add: OpenFile_task_success)
  from ur fil l1 l2 f1 f2 f3 show ?thesis by blast
qed


text \<open>
  C8, witness: no launcher; a launcher and a file picker that exit with an error; a bus
  connection that is closed when the response is sent; helpers that never exit.
\<close>

theorem task_failures_only_logged_witness:
  "OpenURI_task world_no_helpers ''https://example.org/'' =
     ([Log [Str ''in OpenURI'',
            Str ''can not find xdg-open-dispatch: executable file not found in $PATH'']],
      Return ()) \<and>
   OpenURI_task world_helpers_fail ''https://example.org/'' =
     ([Log [Str ''in OpenURI'', Str ''xdg-open-dispatch: exit status 4'']], Return ()) \<and>
   OpenFile_task world_helpers_fail \<lparr>path = ''/org/freedesktop/portal/desktop/request/1_7/abc''\<rparr> =
     ([Log [Str ''exit status 1''],
       Emit ''/org/freedesktop/portal/desktop/request/1_7/abc''
         ''org.freedesktop.portal.Request.Response'' 1 Map.empty None],
      Return ()) \<and>
   OpenFile_task world_bus_closed \<lparr>path = ''/org/freedesktop/portal/desktop/request/1_7/abc''\<rparr> =
     ([Emit ''/org/freedesktop/portal/desktop/request/1_7/abc''
         ''org.freedesktop.portal.Request.Response'' 0
         [''uris'' \<mapsto> MakeVariant (GoStrings [''file:///home/user/file.txt''])]
         (Some ''dbus: connection closed by user''),
       Log [Str ''in OpenFile'', Str ''can not send response: dbus: connection closed by user'']],
      Return ()) \<and>
   snd (OpenURI_task world_helpers_hang ''https://example.org/'') = Block \<and>
   snd (OpenFile_task world_helpers_hang \<lparr>path = ''/org/freedesktop/portal/desktop/request/1_7/abc''\<rparr>) =
     Block"
proof -
  have l1: "LookPath world_no_helpers ''xdg-open-dispatch'' = Inl ''executable file not found in $PATH''"
    by (simp add: world_no_helpers_def world_ok_def)
  have l2: "LookPath world_helpers_fail ''xdg-open-dispatch'' = Inr ''/usr/bin/xdg-open-dispatch''"
    "Run world_helpers_fail ''/usr/bin/xdg-open-dispatch'' [''xdg-open-dispatch'', ''https://example.org/'']
       = Answer (Some ''exit status 4'')"
    "Output world_helpers_fail ''zenity'' [''--file-selection''] = Answer ([], Some ''exit status 1'')"
    "EmitResult world_helpers_fail p n c r = None" for p n c r
    by (simp_all add: world_helpers_fail_def world_ok_def)
  have l3: "Output world_bus_closed ''zenity'' [''--file-selection''] =
      Answer (''/home/user/file.txt\<newline>'', None)"
    "EmitResult world_bus_closed p n c r = Some ''dbus: connection closed by user''" for p n c r
    by (simp_all add: world_bus_closed_def world_ok_def)
  have l4: "LookPath world_helpers_hang ''xdg-open-dispatch'' = Inr ''/usr/bin/xdg-open-dispatch''"
    "Run world_helpers_hang p args = NeverExits"
    "Output world_helpers_hang n args = NeverExits" for p n args
    by (simp_all add: world_helpers_hang_def world_ok_def)
  have trim: "TrimSpace (''/home/user/file.txt\<newline>'') = ''/home/user/file.txt''"
    by (simp add: TrimSpace_def isSpace_def spaceRunes_def)
  show ?thesis
    using task_failures_only_logged [of world_no_helpers "''https://example.org/''"
        "\<lparr>path = ''/org/freedesktop/portal/desktop/request/1_7/abc''\<rparr>"
        "''executable file not found in $PATH''"]
      task_failures_only_logged [of world_helpers_fail "''https://example.org/''"
        "\<lparr>path = ''/org/freedesktop/portal/desktop/request/1_7/abc''\<rparr>"
        "''exit status 4''" "''/usr/bin/xdg-open-dispatch''"]
      task_failures_only_logged [of world_helpers_fail "''https://example.org/''"
        "\<lparr>path = ''/org/freedesktop/portal/desktop/request/1_7/abc''\<rparr>"
        "''exit status 1''" "''/usr/bin/xdg-open-dispatch''" "[]"]
      task_failures_only_logged [of world_bus_closed "''https://example.org/''"
        "\<lparr>path = ''/org/freedesktop/portal/desktop/request/1_7/abc''\<rparr>"
        "[]" "[]" "''/home/user/file.txt\<newline>''" "''dbus: connection closed by user''"]
      task_failures_only_logged [of world_helpers_hang "''https://example.org/''"
        "\<lparr>path = ''/org/freedesktop/portal/desktop/request/1_7/abc''\<rparr>"]
    by (simp add: l1 l2 l3 l4 trim prod_eq_iff)
qed

section \<open>Bootstrap failures\<close>

text \<open>
  C9. When the session bus cannot be reached, when the export of the properties is
  rejected, when the request for the name fails, or when its reply is anything but
  primary owner, \<open>main\<close> writes \<open>abort: \<close> and the message to standard error and
  exits with status 1 (after closing the connection, if it had one). When all three
  succeed it blocks and writes nothing.
\<close>

theorem main_bootstrap_failure:
  "(ConnectSessionBus w = Some e \<longrightarrow>
      main w = ([Stderr (''abort: can not connect session bus '' @ e @ ''\<newline>'')], Exit 1)) \<and>
   (ConnectSessionBus w = None \<and> PropExport w = Some e \<longrightarrow>
      main w = ([Close, Stderr (''abort: can not bind properties: '' @ e @ ''\<newline>'')], Exit 1)) \<and>
   (ConnectSessionBus w = None \<and> PropExport w = None \<and>
    RequestName w ''org.freedesktop.portal.Desktop'' = (reply, Some e) \<longrightarrow>
      main w =
        ([Close,
          Stderr (''abort: can not request name org.freedesktop.portal.Desktop: '' @ e @ ''\<newline>'')],
         Exit 1)) \<and>
   (ConnectSessionBus w = None \<and> PropExport w = None \<and>
    RequestName w ''org.freedesktop.portal.Desktop'' = (reply, None) \<and>
    reply \<noteq> RequestNameReplyPrimaryOwner \<longrightarrow>
      main w =
        ([Close, Stderr ''abort: name org.freedesktop.portal.Desktop already taken\<newline>''],
         Exit 1)) \<and>
   (ConnectSessionBus w = None \<and> PropExport w = None \<and>
    RequestName w ''org.freedesktop.portal.Desktop'' = (RequestNameReplyPrimaryOwner, None) \<longrightarrow>
      main w = ([], Block))"
  by (simp add: main_eq)

text \<open>
  C9, witness: no bus; properties rejected; the name owned by another process; the
  name owned already; the request failing; and the run where all succeed.
\<close>

theorem main_bootstrap_failure_witness:
  "main (world_ok\<lparr>ConnectSessionBus := Some ''dial unix /run/user/1000/bus: connect: no such file or directory''\<rparr>) =
     ([Stderr ''abort: can not connect session bus dial unix /run/user/1000/bus: connect: no such file or directory\<newline>''],
      Exit 1) \<and>
   main (world_ok\<lparr>PropExport := Some ''dbus: invalid object path''\<rparr>) =
     ([Close, Stderr ''abort: can not bind properties: dbus: invalid object path\<newline>''], Exit 1) \<and>
   main (world_ok\<lparr>RequestName := (\<lambda>s. (RequestNameReplyExists, None))\<rparr>) =
     ([Close, Stderr ''abort: name org.freedesktop.portal.Desktop already taken\<newline>''], Exit 1) \<and>
   main (world_ok\<lparr>RequestName := (\<lambda>s. (RequestNameReplyAlreadyOwner, None))\<rparr>) =
     ([Close, Stderr ''abort: name org.freedesktop.portal.Desktop already taken\<newline>''], Exit 1) \<and>
   main (world_ok\<lparr>RequestName := (\<lambda>s. (RequestNameReplyInQueue, Some ''dbus: connection closed by user''))\<rparr>) =
     ([Close,
       Stderr ''abort: can not request name org.freedesktop.portal.Desktop: dbus: connection closed by user\<newline>''],
      Exit 1) \<and>
   main world_ok = ([], Block)"
  using main_bootstrap_failure
      [of "world_ok\<lparr>ConnectSessionBus := Some ''dial unix /run/user/1000/bus: connect: no such file or directory''\<rparr>"
          "''dial unix /run/user/1000/bus: connect: no such file or directory''"]
    main_bootstrap_failure
      [of "world_ok\<lparr>PropExport := Some ''dbus: invalid object path''\<rparr>" "''dbus: invalid object path''"]
    main_bootstrap_failure
      [of "world_ok\<lparr>RequestName := (\<lambda>s. (RequestNameReplyExists, None))\<rparr>" "[]"
          RequestNameReplyExists]
    main_bootstrap_failure
      [of "world_ok\<lparr>RequestName := (\<lambda>s. (RequestNameReplyAlreadyOwner, None))\<rparr>" "[]"
          RequestNameReplyAlreadyOwner]
    main_bootstrap_failure
      [of "world_ok\<lparr>RequestName := (\<lambda>s. (RequestNameReplyInQueue, Some ''dbus: connection closed by user''))\<rparr>"
          "''dbus: connection closed by user''" RequestNameReplyInQueue]
    main_bootstrap_failure [of world_ok]
  by (simp add: world_ok_def)

end
